theory Spec2Isabelle
  imports Main "HOL-Library.Word"
begin

section \<open>Data shared by the translation units\<close>

type_synonym byte = "8 word"
type_synonym u32 = "32 word"

text \<open>
  Modelled from the spec: the encodings of a Fixup (section 3); the declaration is in
  \<^verbatim>\<open>z80_assembler.h\<close>, which is not part of the sources at hand.
\<close>

datatype encoding = Absolute | LowByte | HighByte | SignedRelativeFrom u32

text \<open>Modelled from the spec: the Fixup record of the data model (section 3).\<close>

record fixup =
  location :: u32
  width :: nat
  encoding :: encoding
  constantOffset :: int

text \<open>Modelled from the spec: the kinds of a symbol (section 3).\<close>

datatype kind = Label | Constant

text \<open>
  Modelled from the spec: the Symbol record of the data model (section 3); the
  structure is declared in \<^verbatim>\<open>z80_assembler.h\<close>, which is not part of the sources at
  hand. The members that \<^verbatim>\<open>main\<close> reads have the names of the code: \<^verbatim>\<open>name\<close>,
  \<^verbatim>\<open>val\<close>, \<^verbatim>\<open>type\<close> (zero for a symbol of the program) and \<^verbatim>\<open>recalc\<close>, the
  pending Fixups (empty when the pointer is null); the chain link \<^verbatim>\<open>next\<close> is the list
  structure of a bucket. \<open>defined\<close> and \<open>kind\<close> are the members of the specification.
\<close>

record symbol =
  name :: string
  val :: int
  type :: nat
  recalc :: "fixup list"
  defined :: bool
  kind :: kind

text \<open>
  The file-level variables of \<^verbatim>\<open>z80_assembler.cpp\<close> that the other translation units
  share: \<^verbatim>\<open>PC\<close>, \<^verbatim>\<open>nextPC\<close>, \<^verbatim>\<open>RAM\<close>, \<^verbatim>\<open>minPC\<close>, \<^verbatim>\<open>maxPC\<close>, \<^verbatim>\<open>LineNo\<close>,
  \<^verbatim>\<open>LineBuf\<close>, and the variables of other units that \<^verbatim>\<open>main\<close> reads:
  \<^verbatim>\<open>reachedEnd\<close> and the 256 buckets of \<^verbatim>\<open>SymTab\<close>. \<^verbatim>\<open>RAM\<close> is a byte buffer
  indexed by a 32-bit address; \<^verbatim>\<open>LineBuf\<close> holds the C string of the current line
  (the characters before the terminating NUL). The field \<open>ext\<close> stands for the
  remaining state of the translation units that are not part of this file.
\<close>

record 'x globals =
  PC :: u32
  nextPC :: u32
  RAM :: "u32 \<Rightarrow> byte"
  minPC :: u32
  maxPC :: u32
  LineNo :: int
  LineBuf :: string
  reachedEnd :: bool
  SymTab :: "nat \<Rightarrow> symbol list"
  ext :: 'x

definition RAMSIZE :: u32 where
  "RAMSIZE = 0x10000"

text \<open>
  How a run can stop inside the loop of \<^verbatim>\<open>main\<close>: \<^verbatim>\<open>Error\<close> prints the line number,
  the message and the line, and calls \<^verbatim>\<open>exit( 1 )\<close>; the store
  \<^verbatim>\<open>*( oneLine + strlen( oneLine ) - 1 ) = 0\<close> lands in front of \<^verbatim>\<open>LineBuf\<close> when the
  string is empty, which has no defined behaviour.
\<close>

datatype abort =
  Fatal int string string
| Undefined_store

text \<open>\<^verbatim>\<open>isspace\<close> of the C locale: space, and the control characters 9 to 13.\<close>

definition isspace :: "char \<Rightarrow> bool" where
  "isspace c = (c = CHR '' '' \<or> c = CHR 0x09 \<or> c = CHR 0x0A \<or> c = CHR 0x0B
     \<or> c = CHR 0x0C \<or> c = CHR 0x0D)"

text \<open>
  \<^verbatim>\<open>Error( s )\<close>: the report carries \<^verbatim>\<open>LineNo\<close>, the message \<open>s\<close> and \<^verbatim>\<open>LineBuf\<close>
  from its first character that is not white space on.
\<close>

definition Error :: "string \<Rightarrow> 'x globals \<Rightarrow> abort" where
  "Error s st = Fatal (LineNo st) s (dropWhile isspace (LineBuf st))"

text \<open>\<^verbatim>\<open>checkPC( pc )\<close>; the \<^verbatim>\<open>MSG\<close> diagnostics on stderr are left out.\<close>

definition checkPC :: "u32 \<Rightarrow> 'x globals \<Rightarrow> abort + 'x globals" where
  "checkPC pc st =
     (if pc \<ge> RAMSIZE then Inl (Error ''Address overflow -> exit'' st)
      else
        let st1 = (if pc < minPC st then st\<lparr>minPC := pc\<rparr> else st);
            st2 = (if pc > maxPC st1 then st1\<lparr>maxPC := pc\<rparr> else st1)
        in Inr st2)"

text \<open>
  The state in which \<^verbatim>\<open>main\<close> enters its loop: the initialisers of the globals
  (\<^verbatim>\<open>minPC = RAMSIZE\<close>, \<^verbatim>\<open>maxPC = 0\<close>), \<^verbatim>\<open>LineNo = 1\<close>, \<^verbatim>\<open>PC = 0\<close>, the
  \<^verbatim>\<open>memset\<close> of the RAM with the fill byte, and the symbol table and private state
  that \<^verbatim>\<open>InitSymTab\<close> and the initialisers of the other units leave. The 256 guard
  bytes behind the RAM are not initialised by the program; the model gives them the
  fill byte as well. \<^verbatim>\<open>reachedEnd\<close> is defined in another unit and taken to start
  as false.
\<close>

definition init_globals :: "byte \<Rightarrow> (nat \<Rightarrow> symbol list) \<Rightarrow> 'x \<Rightarrow> 'x globals" where
  "init_globals fillbyte tab x =
     \<lparr> PC = 0, nextPC = 0, RAM = (\<lambda>_. fillbyte), minPC = RAMSIZE, maxPC = 0,
       LineNo = 1, LineBuf = [], reachedEnd = False, SymTab = tab, ext = x \<rparr>"

text \<open>A run seen as the sequence of the addresses it passes to \<^verbatim>\<open>checkPC\<close>.\<close>

fun checkPC_all :: "u32 list \<Rightarrow> 'x globals \<Rightarrow> abort + 'x globals" where
  "checkPC_all [] st = Inr st"
| "checkPC_all (a # as) st =
     (case checkPC a st of Inl e \<Rightarrow> Inl e | Inr st' \<Rightarrow> checkPC_all as st')"


section \<open>The driver: \<^verbatim>\<open>main\<close> from the opening of the input file on\<close>

text \<open>
  The command line is taken as parsed: the flags and values that the option loop of
  \<^verbatim>\<open>main\<close> leaves in its variables. \<^verbatim>\<open>offset\<close> is \<open>-1\<close> when no \<^verbatim>\<open>-o\<close> was given
  and a value masked with \<^verbatim>\<open>0xFFFF\<close> otherwise.
\<close>

record options =
  bin :: bool
  cArray :: bool
  hex :: bool
  listing :: bool
  verboseMode :: int
  offset :: int
  fill :: int
  inputfilename :: string

text \<open>
  What \<^verbatim>\<open>main\<close> uses and this file does not define: the functions \<^verbatim>\<open>TokenizeLine\<close>
  and \<^verbatim>\<open>CompileLine\<close>, which work on the global state and may end the run through
  \<^verbatim>\<open>Error\<close>; the symbol table and private state after \<^verbatim>\<open>InitSymTab\<close>; and the
  constant \<^verbatim>\<open>MAXLINELENGTH\<close>, the size of \<^verbatim>\<open>LineBuf\<close> (at least 2, so that a
  read stores a character).
\<close>

record 'x units =
  TokenizeLine :: "string \<Rightarrow> 'x globals \<Rightarrow> abort + 'x globals"
  CompileLine :: "'x globals \<Rightarrow> abort + 'x globals"
  InitSymTab :: "nat \<Rightarrow> symbol list"
  ext0 :: 'x
  MAXLINELENGTH :: nat

text \<open>
  The listing file as the sequence of its entries: one per source line (what
  \<^verbatim>\<open>listOneLine\<close> receives: the address before the line, the address after it, the
  line), then the heading and the lines of the cross reference. The layout that
  \<^verbatim>\<open>listOneLine\<close> and the format strings give the entries is not modelled.
\<close>

datatype lst_item =
  ListedLine u32 u32 string
| XrefHeading
| XrefUndefined string
| XrefValue int string

text \<open>What the program prints on stdout.\<close>

datatype message =
  ErrorReport int string string
| UsingMemoryRange u32 u32
| NoDataCreated

text \<open>
  The result of a run: the exit status (\<open>None\<close> where the behaviour is undefined), the
  messages on stdout, the listing file (\<open>None\<close> when none was opened), the binary, hex
  and C array files written, each with the start address and size of the range it
  holds, and the global state at the end of the loop when the loop was left normally.
\<close>

record 'x outcome =
  status :: "int option"
  stdout :: "message list"
  lstfile :: "lst_item list option"
  outfiles :: "(string \<times> u32 \<times> u32) list"
  image :: "'x globals option"

text \<open>\<^verbatim>\<open>strlen\<close> sees the characters before the first NUL.\<close>

definition cstr :: "string \<Rightarrow> string" where
  "cstr s = takeWhile (\<lambda>c. c \<noteq> CHR 0x00) s"

text \<open>
  The strings that the successive calls \<^verbatim>\<open>fgets( LineBuf, sizeof( LineBuf ), infile )\<close>
  return on a file with the given content: a string ends behind a newline, or when
  \<open>n - 1\<close> characters are stored, or at the end of the file; at the end of the file
  with nothing read \<^verbatim>\<open>fgets\<close> returns null. The second argument collects the string
  being read, in reverse.
\<close>

fun fgets_all :: "nat \<Rightarrow> string \<Rightarrow> string \<Rightarrow> string list" where
  "fgets_all n acc [] = (if acc = [] then [] else [rev acc])"
| "fgets_all n acc (c # cs) =
     (if c = CHR 0x0A \<or> n \<le> length acc + 2 then rev (c # acc) # fgets_all n [] cs
      else fgets_all n (c # acc) cs)"

type_synonym 'x pass = "'x globals \<times> lst_item list option"

text \<open>
  The body of the loop for one string read: the last character of the string is
  overwritten with NUL, the line is tokenized and compiled, listed if the listing
  file is open, and the line number is incremented. \<^verbatim>\<open>oneLine\<close> points to
  \<^verbatim>\<open>LineBuf\<close>, so the listing shows the buffer as the two calls leave it.
\<close>

definition process_line ::
  "'x units \<Rightarrow> string \<Rightarrow> 'x pass \<Rightarrow> (abort \<times> lst_item list option) + 'x pass" where
  "process_line U got s =
     (let st = fst s; lst = snd s; prevPC = PC st in
      if cstr got = [] then Inl (Undefined_store, lst)
      else
        let oneLine = butlast (cstr got) in
        case TokenizeLine U oneLine (st\<lparr>LineBuf := oneLine\<rparr>) of
          Inl e \<Rightarrow> Inl (e, lst)
        | Inr st1 \<Rightarrow>
            (case CompileLine U st1 of
               Inl e \<Rightarrow> Inl (e, lst)
             | Inr st2 \<Rightarrow>
                 Inr (st2\<lparr>LineNo := LineNo st2 + 1\<rparr>,
                      map_option (\<lambda>f. f @ [ListedLine prevPC (PC st2) (LineBuf st2)]) lst)))"

text \<open>
  \<^verbatim>\<open>while ( !reachedEnd ) { ... }\<close> over the strings still to be read; the loop is
  left when \<^verbatim>\<open>reachedEnd\<close> is set or \<^verbatim>\<open>fgets\<close> returns null.
\<close>

fun main_loop ::
  "'x units \<Rightarrow> string list \<Rightarrow> 'x pass \<Rightarrow> (abort \<times> lst_item list option) + 'x pass" where
  "main_loop U [] s = Inr s"
| "main_loop U (got # rest) s =
     (if reachedEnd (fst s) then Inr s
      else case process_line U got s of
             Inl e \<Rightarrow> Inl e
           | Inr s' \<Rightarrow> main_loop U rest s')"

text \<open>The cross reference: the buckets 0 to 255 in order, each chain in order.\<close>

definition xref_entry :: "symbol \<Rightarrow> lst_item list" where
  "xref_entry s =
     (if recalc s \<noteq> [] then [XrefUndefined (name s)]
      else if type s = 0 then [XrefValue (val s) (name s)]
      else [])"

definition cross_reference :: "'x globals \<Rightarrow> lst_item list" where
  "cross_reference st = concat (map (\<lambda>i. concat (map xref_entry (SymTab st i))) [0..<256])"

text \<open>
  The three blocks that write the binary, the hex and the C array file, in this
  order: each replaces the last four characters of the name by its extension, opens
  the file, and on failure returns 1 from \<^verbatim>\<open>main\<close>. \<open>ok\<close> tells which names can be
  opened for writing.
\<close>

fun write_outputs ::
  "(string \<Rightarrow> bool) \<Rightarrow> string \<Rightarrow> u32 \<Rightarrow> u32 \<Rightarrow> string list \<Rightarrow> (string \<times> u32 \<times> u32) list
     \<Rightarrow> int \<times> (string \<times> u32 \<times> u32) list" where
  "write_outputs ok stem start sz [] written = (0, written)"
| "write_outputs ok stem start sz (e # es) written =
     (if ok (stem @ e)
      then write_outputs ok stem start sz es (written @ [(stem @ e, start, sz)])
      else (1, written))"

text \<open>
  \<^verbatim>\<open>main\<close> behind the loop: the cross reference, the report of the memory range,
  and the output files. With an output name shorter than four characters, a block
  that writes a file would put the extension in front of the buffer.
\<close>

definition finish ::
  "options \<Rightarrow> (string \<Rightarrow> bool) \<Rightarrow> string \<Rightarrow> 'x globals \<Rightarrow> lst_item list option \<Rightarrow> 'x outcome" where
  "finish opts ok outputfilename st lst =
     (let lst' = map_option (\<lambda>f. f @ XrefHeading # cross_reference st) lst;
          report = (listing opts \<or> verboseMode opts \<noteq> 0)
      in
      if report \<and> \<not> minPC st \<le> maxPC st then
        \<lparr> status = Some 1, stdout = [NoDataCreated], lstfile = lst', outfiles = [],
          image = Some st \<rparr>
      else
        let out = (if report then [UsingMemoryRange (minPC st) (maxPC st)] else []) in
        if outputfilename = [] then
          \<lparr> status = Some 0, stdout = out, lstfile = lst', outfiles = [], image = Some st \<rparr>
        else
          let start = (if offset opts < 0 then minPC st else word_of_int (offset opts));
              sz = maxPC st + 1 - start;
              com = (start = 0x100);
              stem = take (length outputfilename - 4) outputfilename;
              exts = (if bin opts then [if com then ''.com'' else ''.bin''] else [])
                   @ (if hex opts then [''.hex''] else [])
                   @ (if cArray opts then [''.h''] else []);
              res = write_outputs ok stem start sz exts []
          in if exts \<noteq> [] \<and> length outputfilename < 4 then
               \<lparr> status = None, stdout = out, lstfile = lst', outfiles = [], image = Some st \<rparr>
             else
               \<lparr> status = Some (fst res), stdout = out, lstfile = lst', outfiles = snd res,
                 image = Some st \<rparr>)"

text \<open>How the run ends when the loop is left through \<^verbatim>\<open>Error\<close>.\<close>

fun aborted :: "abort \<Rightarrow> lst_item list option \<Rightarrow> 'x outcome" where
  "aborted (Fatal n m t) lst =
     \<lparr> status = Some 1, stdout = [ErrorReport n m t], lstfile = lst, outfiles = [],
       image = None \<rparr>"
| "aborted Undefined_store lst =
     \<lparr> status = None, stdout = [], lstfile = lst, outfiles = [], image = None \<rparr>"

definition assemble ::
  "'x units \<Rightarrow> options \<Rightarrow> (string \<Rightarrow> bool) \<Rightarrow> string \<Rightarrow> string \<Rightarrow> lst_item list option
     \<Rightarrow> 'x outcome" where
  "assemble U opts ok outputfilename content lst =
     (case main_loop U (fgets_all (MAXLINELENGTH U) [] content)
             (init_globals (word_of_int (fill opts)) (InitSymTab U) (ext0 U), lst) of
        Inl (e, lst') \<Rightarrow> aborted e lst'
      | Inr (st, lst') \<Rightarrow> finish opts ok outputfilename st lst')"

text \<open>\<^verbatim>\<open>basename\<close>: the part of the path behind the last slash.\<close>

definition basename :: "string \<Rightarrow> string" where
  "basename f = rev (takeWhile (\<lambda>c. c \<noteq> CHR ''/'') (rev f))"

definition stopped :: "int \<Rightarrow> 'x outcome" where
  "stopped rc = \<lparr> status = Some rc, stdout = [], lstfile = None, outfiles = [], image = None \<rparr>"

text \<open>
  \<^verbatim>\<open>main\<close> from \<^verbatim>\<open>fopen( inputfilename, "r" )\<close> on. \<open>infile\<close> is the content of the
  input file, or \<open>None\<close> when it cannot be opened. The output name is the input name
  when an output is asked for and the name ends in one of the four extensions; the
  listing name is made by writing \<^verbatim>\<open>.lst\<close> at the length of the input name less 4,
  which is in front of the buffer for a name of one to three characters and behind
  the end of an empty output name for a name longer than four. File names are taken
  to be shorter than \<^verbatim>\<open>PATH_MAX\<close>.
\<close>

definition main :: "'x units \<Rightarrow> options \<Rightarrow> string option \<Rightarrow> (string \<Rightarrow> bool) \<Rightarrow> 'x outcome" where
  "main U opts infile ok =
     (case infile of
        None \<Rightarrow> stopped 1
      | Some content \<Rightarrow>
          let f = inputfilename opts;
              fnamelen = length f;
              ending = drop (fnamelen - 4) f;
              outputfilename =
                (if (cArray opts \<or> bin opts \<or> hex opts \<or> listing opts)
                    \<and> length (basename f) > 4
                    \<and> (ending = ''.asm'' \<or> ending = ''.ASM'' \<or> ending = ''.z80''
                         \<or> ending = ''.Z80'')
                 then f else [])
          in
          if listing opts \<and> fnamelen \<noteq> 0 then
            if fnamelen < 4 then
              \<lparr> status = None, stdout = [], lstfile = None, outfiles = [], image = None \<rparr>
            else
              let lstname = (if fnamelen - 4 \<le> length outputfilename
                             then take (fnamelen - 4) outputfilename @ ''.lst''
                             else outputfilename)
              in if ok lstname then assemble U opts ok lstname content (Some [])
                 else stopped 1
          else assemble U opts ok outputfilename content None)"


section \<open>The assembly engine, after the specification\<close>

text \<open>
  The tokenizer, the expression evaluator, the symbol table and the encoder are in
  translation units that are not part of the sources at hand. The definitions of this
  section follow sections 3 and 4 of the specification, for the directives \<^verbatim>\<open>ORG\<close>,
  \<^verbatim>\<open>DEFB\<close>, \<^verbatim>\<open>END\<close> and the instructions \<^verbatim>\<open>JP nn\<close>, \<^verbatim>\<open>JR e\<close>, \<^verbatim>\<open>DJNZ e\<close>, and for
  expressions that are sums of decimal numbers and symbols. The texts of the error
  messages are not given by the specification.
\<close>

text \<open>Sequencing of two steps, the second skipped when the first is fatal.\<close>

definition andThen :: "abort + 'a \<Rightarrow> ('a \<Rightarrow> abort + 'b) \<Rightarrow> abort + 'b" where
  "andThen r f = (case r of Inl e \<Rightarrow> Inl e | Inr x \<Rightarrow> f x)"

subsection \<open>Symbol table\<close>

text \<open>
  Modelled from the spec: the hash function of the 256 buckets is not in the sources
  at hand; it is the parameter \<open>h\<close>.
\<close>

definition bucket :: "(string \<Rightarrow> nat) \<Rightarrow> string \<Rightarrow> nat" where
  "bucket h n = h n mod 256"

text \<open>Modelled from the spec: looking a name up in its bucket (section 4.3).\<close>

definition lookup :: "(string \<Rightarrow> nat) \<Rightarrow> string \<Rightarrow> 'x globals \<Rightarrow> symbol option" where
  "lookup h n st = find (\<lambda>s. name s = n) (SymTab st (bucket h n))"

text \<open>Modelled from the spec: the undefined placeholder of a first reference.\<close>

definition new_symbol :: "string \<Rightarrow> symbol" where
  "new_symbol n =
     \<lparr> name = n, val = 0, type = 0, recalc = [], defined = False, kind = Label \<rparr>"

text \<open>
  Modelled from the spec: \<open>lookupOrCreate(name)\<close> returns the existing entry or creates
  an undefined placeholder, at the end of the chain of its bucket.
\<close>

definition lookupOrCreate ::
  "(string \<Rightarrow> nat) \<Rightarrow> string \<Rightarrow> 'x globals \<Rightarrow> symbol \<times> 'x globals" where
  "lookupOrCreate h n st =
     (case lookup h n st of
        Some s \<Rightarrow> (s, st)
      | None \<Rightarrow>
          (new_symbol n,
           st\<lparr>SymTab := (SymTab st)(bucket h n := SymTab st (bucket h n) @ [new_symbol n])\<rparr>))"

text \<open>Modelled from the spec: writing an entry back to its place in the chain.\<close>

definition store_symbol :: "(string \<Rightarrow> nat) \<Rightarrow> symbol \<Rightarrow> 'x globals \<Rightarrow> 'x globals" where
  "store_symbol h s st =
     st\<lparr>SymTab := (SymTab st)(bucket h (name s) :=
           map (\<lambda>t. if name t = name s then s else t) (SymTab st (bucket h (name s))))\<rparr>"

text \<open>Modelled from the spec: a value is stored modulo \<open>2^16\<close>, low byte first.\<close>

definition lo :: "int \<Rightarrow> byte" where
  "lo v = word_of_int v"

definition hi :: "int \<Rightarrow> byte" where
  "hi v = word_of_int (v div 256)"

text \<open>Modelled from the spec: a write that patches a byte emitted before.\<close>

definition poke :: "u32 \<Rightarrow> byte \<Rightarrow> 'x globals \<Rightarrow> 'x globals" where
  "poke a b st = st\<lparr>RAM := (RAM st)(a := b)\<rparr>"

text \<open>
  Modelled from the spec: draining one Fixup when its symbol gets the value \<open>v\<close>: the
  constant offset is added, the bytes are computed after the encoding and written at
  the location; a relative displacement is taken against the stored address and is
  fatal when out of range.
\<close>

definition apply_fixup :: "int \<Rightarrow> fixup \<Rightarrow> 'x globals \<Rightarrow> abort + 'x globals" where
  "apply_fixup v f st =
     (let x = v + constantOffset f; a = location f in
      case encoding f of
        Absolute \<Rightarrow>
          Inr (if width f = 2 then poke (a + 1) (hi x) (poke a (lo x) st)
               else poke a (lo x) st)
      | LowByte \<Rightarrow> Inr (poke a (lo x) st)
      | HighByte \<Rightarrow> Inr (poke a (hi x) st)
      | SignedRelativeFrom b \<Rightarrow>
          (let d = x - uint b in
           if - 128 \<le> d \<and> d \<le> 127 then Inr (poke a (word_of_int d) st)
           else Inl (Error ''relative jump out of range'' st)))"

text \<open>Modelled from the spec: draining the pending list in order.\<close>

fun apply_fixups :: "int \<Rightarrow> fixup list \<Rightarrow> 'x globals \<Rightarrow> abort + 'x globals" where
  "apply_fixups v [] st = Inr st"
| "apply_fixups v (f # fs) st =
     (case apply_fixup v f st of Inl e \<Rightarrow> Inl e | Inr st' \<Rightarrow> apply_fixups v fs st')"

text \<open>
  Modelled from the spec: \<open>define(name, value, kind)\<close> (named \<open>define_symbol\<close> here): a label that is already
  defined is a fatal error; otherwise the symbol is defined, its value set, its
  pending Fixups drained in order and the list cleared.
\<close>

definition define_symbol ::
  "(string \<Rightarrow> nat) \<Rightarrow> string \<Rightarrow> int \<Rightarrow> kind \<Rightarrow> 'x globals \<Rightarrow> abort + 'x globals" where
  "define_symbol h n v k st =
     (let r = lookupOrCreate h n st; s = fst r; st1 = snd r in
      if k = Label \<and> defined s then Inl (Error ''duplicate label'' st)
      else apply_fixups v (recalc s)
             (store_symbol h (s\<lparr>val := v, defined := True, kind := k, recalc := []\<rparr>) st1))"

text \<open>Modelled from the spec: \<open>addFixup(name, fixup)\<close> appends to the pending list.\<close>

definition addFixup :: "(string \<Rightarrow> nat) \<Rightarrow> string \<Rightarrow> fixup \<Rightarrow> 'x globals \<Rightarrow> 'x globals" where
  "addFixup h n f st =
     (let r = lookupOrCreate h n st; s = fst r; st1 = snd r in
      store_symbol h (s\<lparr>recalc := recalc s @ [f]\<rparr>) st1)"

subsection \<open>Expressions\<close>

text \<open>
  Modelled from the spec: the expressions of the forms modelled: a number, a symbol,
  a sum (section 4.2).
\<close>

datatype expr = Lit int | Sym string | Plus expr expr

text \<open>Modelled from the spec: the result of \<open>evaluate\<close> (section 4.2).\<close>

datatype resolution = Resolved int | Unresolved string int

text \<open>
  Modelled from the spec: \<open>evaluate\<close> (section 4.2): a defined symbol is replaced by
  its value, an undefined one makes the expression unresolved with the sum of the
  constant terms, and two undefined symbols in one expression are a fatal error.
\<close>

fun evaluate :: "(string \<Rightarrow> nat) \<Rightarrow> 'x globals \<Rightarrow> expr \<Rightarrow> abort + resolution" where
  "evaluate h st (Lit v) = Inr (Resolved v)"
| "evaluate h st (Sym n) =
     (case lookup h n st of
        None \<Rightarrow> Inr (Unresolved n 0)
      | Some s \<Rightarrow> if defined s then Inr (Resolved (val s)) else Inr (Unresolved n 0))"
| "evaluate h st (Plus a b) =
     (case evaluate h st a of
        Inl e \<Rightarrow> Inl e
      | Inr (Resolved x) \<Rightarrow>
          (case evaluate h st b of
             Inl e \<Rightarrow> Inl e
           | Inr (Resolved y) \<Rightarrow> Inr (Resolved (x + y))
           | Inr (Unresolved n k) \<Rightarrow> Inr (Unresolved n (x + k)))
      | Inr (Unresolved n k) \<Rightarrow>
          (case evaluate h st b of
             Inl e \<Rightarrow> Inl e
           | Inr (Resolved y) \<Rightarrow> Inr (Unresolved n (k + y))
           | Inr (Unresolved m j) \<Rightarrow> Inl (Error ''two undefined symbols'' st)))"

subsection \<open>Encoder\<close>

text \<open>
  Modelled from the spec: the write of one byte at the cursor: the address passes
  through \<^verbatim>\<open>checkPC\<close>, the byte is stored and the cursor advances.
\<close>

definition storeByte :: "byte \<Rightarrow> 'x globals \<Rightarrow> abort + 'x globals" where
  "storeByte b st =
     andThen (checkPC (PC st) st)
       (\<lambda>st1. Inr (st1\<lparr>RAM := (RAM st1)(PC st1 := b), PC := PC st1 + 1\<rparr>))"

text \<open>
  Modelled from the spec: a 16-bit operand: the value, or the placeholder zero and then
  an \<open>Absolute\<close> Fixup of width 2 at the address of the operand.
\<close>

definition emit_word :: "(string \<Rightarrow> nat) \<Rightarrow> expr \<Rightarrow> 'x globals \<Rightarrow> abort + 'x globals" where
  "emit_word h e st =
     (case evaluate h st e of
        Inl err \<Rightarrow> Inl err
      | Inr (Resolved v) \<Rightarrow> andThen (storeByte (lo v) st) (storeByte (hi v))
      | Inr (Unresolved n k) \<Rightarrow>
          andThen (andThen (storeByte 0 st) (storeByte 0))
            (\<lambda>st'. Inr (addFixup h n
               \<lparr> location = PC st, width = 2, encoding = Absolute, constantOffset = k \<rparr> st')))"

text \<open>Modelled from the spec: an 8-bit operand of \<^verbatim>\<open>DEFB\<close>.\<close>

definition emit_byte :: "(string \<Rightarrow> nat) \<Rightarrow> expr \<Rightarrow> 'x globals \<Rightarrow> abort + 'x globals" where
  "emit_byte h e st =
     (case evaluate h st e of
        Inl err \<Rightarrow> Inl err
      | Inr (Resolved v) \<Rightarrow> storeByte (lo v) st
      | Inr (Unresolved n k) \<Rightarrow>
          andThen (storeByte 0 st)
            (\<lambda>st'. Inr (addFixup h n
               \<lparr> location = PC st, width = 1, encoding = LowByte, constantOffset = k \<rparr> st')))"

text \<open>Modelled from the spec: \<^verbatim>\<open>DEFB\<close> emits one byte per operand.\<close>

fun emit_bytes :: "(string \<Rightarrow> nat) \<Rightarrow> expr list \<Rightarrow> 'x globals \<Rightarrow> abort + 'x globals" where
  "emit_bytes h [] st = Inr st"
| "emit_bytes h (e # es) st = andThen (emit_byte h e st) (emit_bytes h es)"

text \<open>
  Modelled from the spec: the operand of a relative branch, emitted behind the opcode:
  the address after the instruction is the cursor plus one; a resolved target gives
  the displacement \<open>target - after\<close>, fatal outside \<open>-128..127\<close>; an unresolved
  target gives the placeholder zero and a \<open>SignedRelativeFrom after\<close> Fixup.
\<close>

definition emit_relative :: "(string \<Rightarrow> nat) \<Rightarrow> expr \<Rightarrow> 'x globals \<Rightarrow> abort + 'x globals" where
  "emit_relative h e st =
     (let after = PC st + 1 in
      case evaluate h st e of
        Inl err \<Rightarrow> Inl err
      | Inr (Resolved v) \<Rightarrow>
          (let d = v - uint after in
           if - 128 \<le> d \<and> d \<le> 127 then storeByte (word_of_int d) st
           else Inl (Error ''relative jump out of range'' st))
      | Inr (Unresolved n k) \<Rightarrow>
          andThen (storeByte 0 st)
            (\<lambda>st'. Inr (addFixup h n
               \<lparr> location = PC st, width = 1, encoding = SignedRelativeFrom after,
                 constantOffset = k \<rparr> st')))"

text \<open>
  Modelled from the spec: the directives and instructions modelled, with their operands
  (section 4.4); \<open>Nothing\<close> is a line without a mnemonic.
\<close>

datatype operation =
  Nothing | ORG expr | DEFB "expr list" | END | JP expr | JR expr | DJNZ expr

text \<open>
  Modelled from the spec: the directives and instructions (section 4.4); the opcodes
  \<open>C3\<close>, \<open>18\<close> and \<open>10\<close> are those of the Z80 for \<^verbatim>\<open>JP nn\<close>, \<^verbatim>\<open>JR e\<close> and \<^verbatim>\<open>DJNZ e\<close>.
\<close>

fun encode :: "(string \<Rightarrow> nat) \<Rightarrow> operation \<Rightarrow> 'x globals \<Rightarrow> abort + 'x globals" where
  "encode h Nothing st = Inr st"
| "encode h (ORG e) st =
     (case evaluate h st e of
        Inl err \<Rightarrow> Inl err
      | Inr (Resolved v) \<Rightarrow> Inr (st\<lparr>PC := word_of_int v\<rparr>)
      | Inr (Unresolved n k) \<Rightarrow> Inl (Error ''undefined symbol in ORG'' st))"
| "encode h (DEFB es) st = emit_bytes h es st"
| "encode h END st = Inr (st\<lparr>reachedEnd := True\<rparr>)"
| "encode h (JP e) st = andThen (storeByte 0xC3 st) (emit_word h e)"
| "encode h (JR e) st = andThen (storeByte 0x18 st) (emit_relative h e)"
| "encode h (DJNZ e) st = andThen (storeByte 0x10 st) (emit_relative h e)"

text \<open>
  Modelled from the spec: one statement: a label is defined at the cursor before the
  mnemonic is processed.
\<close>

definition compile_stmt ::
  "(string \<Rightarrow> nat) \<Rightarrow> string option \<times> operation \<Rightarrow> 'x globals \<Rightarrow> abort + 'x globals" where
  "compile_stmt h stmt st =
     andThen (case fst stmt of None \<Rightarrow> Inr st | Some n \<Rightarrow> define_symbol h n (uint (PC st)) Label st)
       (encode h (snd stmt))"

text \<open>
  Modelled from the spec: a program as a sequence of statements, assembled one after
  the other until the end-of-program signal (section 4.4).
\<close>

fun compile_all ::
  "(string \<Rightarrow> nat) \<Rightarrow> (string option \<times> operation) list \<Rightarrow> 'x globals \<Rightarrow> abort + 'x globals" where
  "compile_all h [] st = Inr st"
| "compile_all h (stmt # rest) st =
     (if reachedEnd st then Inr st
      else andThen (compile_stmt h stmt st) (compile_all h rest))"

subsection \<open>Tokenizer and the text of operands\<close>

text \<open>Modelled from the spec: the Line/Token state (section 3).\<close>

record tokens =
  label :: "string option"
  mnemonic :: string
  operands :: "string list"

text \<open>Modelled from the spec: trimming of trailing white space, and of both ends.\<close>

definition rtrim :: "string \<Rightarrow> string" where
  "rtrim s = rev (dropWhile isspace (rev s))"

definition trim :: "string \<Rightarrow> string" where
  "trim s = rtrim (dropWhile isspace s)"

text \<open>Modelled from the spec: the characters of decimal numbers and of identifiers.\<close>

definition is_digit :: "char \<Rightarrow> bool" where
  "is_digit c = (48 \<le> (of_char c :: nat) \<and> (of_char c :: nat) \<le> 57)"

definition is_ident :: "char \<Rightarrow> bool" where
  "is_ident c = (is_digit c \<or> c = CHR ''_''
     \<or> (65 \<le> (of_char c :: nat) \<and> (of_char c :: nat) \<le> 90)
     \<or> (97 \<le> (of_char c :: nat) \<and> (of_char c :: nat) \<le> 122))"

text \<open>Modelled from the spec: splitting a text at every occurrence of a character.\<close>

fun split_on :: "char \<Rightarrow> string \<Rightarrow> string list" where
  "split_on c [] = [] # []"
| "split_on c (x # xs) =
     (if x = c then [] # split_on c xs
      else case split_on c xs of
             w # ws \<Rightarrow> (x # w) # ws
           | [] \<Rightarrow> [x] # [])"

text \<open>
  Modelled from the spec: \<open>tokenize\<close> (section 4.1): the comment from \<^verbatim>\<open>;\<close> on is
  stripped and trailing white space trimmed; an identifier at the beginning of the
  line, immediately followed by \<^verbatim>\<open>:\<close>, is the label; the rest is the mnemonic and
  the operands, split at commas; an empty operand is a syntax error. Parentheses and quoted strings are outside the forms modelled.
\<close>

definition TokenizeLine_spec :: "string \<Rightarrow> tokens globals \<Rightarrow> abort + tokens globals" where
  "TokenizeLine_spec line st =
     (let s = rtrim (takeWhile (\<lambda>c. c \<noteq> CHR '';'') line);
          w = takeWhile is_ident s;
          r = dropWhile is_ident s;
          labelled = (w \<noteq> [] \<and> take 1 r = '':'');
          body = trim (if labelled then drop 1 r else s);
          m = takeWhile (\<lambda>c. \<not> isspace c) body;
          args = trim (dropWhile (\<lambda>c. \<not> isspace c) body);
          ops = (if args = [] then [] else map trim (split_on (CHR '','') args))
      in if [] \<in> set ops then Inl (Error ''syntax error'' st)
         else Inr (st\<lparr>ext := \<lparr> label = (if labelled then Some w else None),
                               mnemonic = m, operands = ops \<rparr>\<rparr>))"

text \<open>Modelled from the spec: the value of a decimal integer literal.\<close>

fun decimal :: "int \<Rightarrow> string \<Rightarrow> int" where
  "decimal acc [] = acc"
| "decimal acc (c # cs) = decimal (10 * acc + (int (of_char c) - 48)) cs"

text \<open>
  Modelled from the spec: the operand texts of the forms modelled: a decimal number,
  a symbol, or a sum of these.
\<close>

definition parse_term :: "string \<Rightarrow> expr option" where
  "parse_term t =
     (if t = [] then None
      else if list_all is_digit t then Some (Lit (decimal 0 t))
      else if list_all is_ident t \<and> \<not> is_digit (hd t) then Some (Sym t)
      else None)"

text \<open>Modelled from the spec: the binary \<^verbatim>\<open>+\<close> of expressions, from left to right.\<close>

fun parse_sum :: "expr \<Rightarrow> string list \<Rightarrow> expr option" where
  "parse_sum e [] = Some e"
| "parse_sum e (t # ts) =
     (case parse_term (trim t) of None \<Rightarrow> None | Some e' \<Rightarrow> parse_sum (Plus e e') ts)"

definition parse_expr :: "string \<Rightarrow> expr option" where
  "parse_expr t =
     (case split_on (CHR ''+'') t of
        [] \<Rightarrow> None
      | t0 # ts \<Rightarrow>
          (case parse_term (trim t0) of None \<Rightarrow> None | Some e \<Rightarrow> parse_sum e ts))"

text \<open>Modelled from the spec: the operands of a line, each an expression.\<close>

fun parse_exprs :: "string list \<Rightarrow> expr list option" where
  "parse_exprs [] = Some []"
| "parse_exprs (t # ts) =
     (case parse_expr t of
        None \<Rightarrow> None
      | Some e \<Rightarrow> (case parse_exprs ts of None \<Rightarrow> None | Some es \<Rightarrow> Some (e # es)))"

text \<open>
  Modelled from the spec: the lookup of the mnemonic and the shape of its operands,
  for the forms modelled.
\<close>

definition decode :: "tokens \<Rightarrow> operation option" where
  "decode t =
     (case parse_exprs (operands t) of
        None \<Rightarrow> None
      | Some es \<Rightarrow>
          (if mnemonic t = [] \<and> es = [] then Some Nothing
           else if mnemonic t = ''END'' \<and> es = [] then Some END
           else if mnemonic t = ''DEFB'' \<and> es \<noteq> [] then Some (DEFB es)
           else (case es of
                   [e] \<Rightarrow>
                     (if mnemonic t = ''ORG'' then Some (ORG e)
                      else if mnemonic t = ''JP'' then Some (JP e)
                      else if mnemonic t = ''JR'' then Some (JR e)
                      else if mnemonic t = ''DJNZ'' then Some (DJNZ e)
                      else None)
                 | _ \<Rightarrow> None)))"

text \<open>Modelled from the spec: \<open>encode(tokens)\<close> on the tokens of the current line.\<close>

definition CompileLine_spec :: "(string \<Rightarrow> nat) \<Rightarrow> tokens globals \<Rightarrow> abort + tokens globals" where
  "CompileLine_spec h st =
     (case decode (ext st) of
        None \<Rightarrow> Inl (Error ''syntax error'' st)
      | Some opn \<Rightarrow> compile_stmt h (label (ext st), opn) st)"

text \<open>
  Modelled from the spec: the engine as the units that \<^verbatim>\<open>main\<close> calls, with an empty
  symbol table at the start; the hash function and the size of the line buffer are
  parameters.
\<close>

definition spec_units :: "(string \<Rightarrow> nat) \<Rightarrow> nat \<Rightarrow> tokens units" where
  "spec_units h n =
     \<lparr> TokenizeLine = TokenizeLine_spec, CompileLine = CompileLine_spec h,
       InitSymTab = (\<lambda>_. []), ext0 = \<lparr> label = None, mnemonic = [], operands = [] \<rparr>,
       MAXLINELENGTH = n \<rparr>"


section \<open>Notions used in the statements\<close>

definition newline :: char where
  "newline = CHR 0x0A"

text \<open>The loop of \<^verbatim>\<open>main\<close> on the content of the input file, from the initial state.\<close>

definition loop_result ::
  "'x units \<Rightarrow> options \<Rightarrow> string \<Rightarrow> lst_item list option
     \<Rightarrow> (abort \<times> lst_item list option) + 'x pass" where
  "loop_result U opts content lst =
     main_loop U (fgets_all (MAXLINELENGTH U) [] content)
       (init_globals (word_of_int (fill opts)) (InitSymTab U) (ext0 U), lst)"

text \<open>The loop was left without a fatal error and with \<^verbatim>\<open>reachedEnd\<close> set.\<close>

definition ended :: "(abort \<times> lst_item list option) + 'x pass \<Rightarrow> bool" where
  "ended r = (case r of Inl e \<Rightarrow> False | Inr s \<Rightarrow> reachedEnd (fst s))"

text \<open>The loop was left without a fatal error and \<^verbatim>\<open>minPC > maxPC\<close> holds at its end.\<close>

definition nothing_emitted :: "'x outcome \<Rightarrow> bool" where
  "nothing_emitted out = (case image out of None \<Rightarrow> False | Some st \<Rightarrow> maxPC st < minPC st)"

text \<open>
  The touched range for the set \<open>W\<close> of the addresses written so far: the initial
  values while \<open>W\<close> is empty, its least and greatest element afterwards.
\<close>

definition touched :: "u32 set \<Rightarrow> 'x globals \<Rightarrow> bool" where
  "touched W st \<longleftrightarrow> finite W \<and> (\<forall>a\<in>W. a < RAMSIZE) \<and>
     (if W = {} then minPC st = RAMSIZE \<and> maxPC st = 0
      else minPC st = Min W \<and> maxPC st = Max W)"

text \<open>The effect of three successive writes of a byte at the cursor.\<close>

definition three_bytes :: "byte \<Rightarrow> byte \<Rightarrow> byte \<Rightarrow> 'x globals \<Rightarrow> 'x globals" where
  "three_bytes b0 b1 b2 s =
     s\<lparr>minPC := min (min (min (minPC s) (PC s)) (PC s + 1)) (PC s + 1 + 1),
       maxPC := max (max (max (maxPC s) (PC s)) (PC s + 1)) (PC s + 1 + 1),
       RAM := (RAM s)(PC s := b0, PC s + 1 := b1, PC s + 1 + 1 := b2),
       PC := PC s + 1 + 1 + 1\<rparr>"


section \<open>Example runs\<close>

text \<open>
  A run with the listing and the binary file asked for, on \<^verbatim>\<open>prog.asm\<close>, every file
  writable, a line buffer of 256 characters and the length of a name as its hash.
\<close>

definition always_ok :: "string \<Rightarrow> bool" where
  "always_ok f = True"

definition demo_units :: "tokens units" where
  "demo_units = spec_units length 256"

definition demo_options :: options where
  "demo_options =
     \<lparr> bin = True, cArray = False, hex = False, listing = True, verboseMode = 0,
       offset = - 1, fill = 0, inputfilename = ''prog.asm'' \<rparr>"

definition blank :: "unit globals" where
  "blank = init_globals 0 (\<lambda>_. []) ()"

definition start_pass :: "tokens pass" where
  "start_pass =
     (init_globals 0 (InitSymTab demo_units) (ext0 demo_units), Some [])"

definition end_line :: string where
  "end_line = ''END'' @ [newline]"

definition jp_line :: string where
  "jp_line = ''JP 5'' @ [newline]"

definition comment_file :: string where
  "comment_file = ''; nothing'' @ [newline]"



definition missing_file :: string where
  "missing_file = ''JP MISSING'' @ [newline]"

definition pending_fixup :: fixup where
  "pending_fixup = \<lparr> location = 1, width = 2, encoding = Absolute, constantOffset = 0 \<rparr>"

definition pending_state :: "unit globals" where
  "pending_state = addFixup length ''MISSING'' pending_fixup blank"


section \<open>The address check\<close>

lemma checkPC_overflow:
  "RAMSIZE \<le> a \<Longrightarrow> checkPC a st = Inl (Error ''Address overflow -> exit'' st)"
  by (simp add: checkPC_def)

lemma checkPC_in_range:
  "a < RAMSIZE \<Longrightarrow>
   checkPC a st = Inr (st\<lparr>minPC := min (minPC st) a, maxPC := max (maxPC st) a\<rparr>)"
  by (auto simp: checkPC_def Let_def min_def max_def not_le)

text \<open>
  Claim C1. \<^verbatim>\<open>checkPC\<close> is the bounds check of a written address: an address
  \<open>a \<ge> 0x10000\<close> ends the run with the fatal error "Address overflow"; for an address
  \<open>a < 0x10000\<close> (an unsigned value, so \<open>0 \<le> a\<close> always holds) the check passes, \<^verbatim>\<open>minPC\<close>
  becomes \<open>min minPC a\<close>, \<^verbatim>\<open>maxPC\<close> becomes \<open>max maxPC a\<close>, and nothing else changes.
\<close>

theorem checkPC_bounds:
  "(0x10000 \<le> a \<longrightarrow> checkPC a st = Inl (Fatal (LineNo st) ''Address overflow -> exit''
        (dropWhile isspace (LineBuf st)))) \<and>
   (a < 0x10000 \<longrightarrow>
      checkPC a st = Inr (st\<lparr>minPC := min (minPC st) a, maxPC := max (maxPC st) a\<rparr>))"
  using checkPC_overflow [of a st] checkPC_in_range [of a st]
  by (simp add: RAMSIZE_def Error_def)

theorem checkPC_bounds_witness:
  "checkPC 0x10000 (blank) = Inl (Fatal 1 ''Address overflow -> exit'' [])
   \<and> checkPC 0x8000 (blank)
       = Inr ((blank)\<lparr>minPC := 0x8000, maxPC := 0x8000\<rparr>)"
  using checkPC_bounds [of "0x10000" "blank"]
    checkPC_bounds [of "0x8000" "blank"]
  by (simp add: blank_def init_globals_def RAMSIZE_def)


section \<open>The touched range\<close>

lemma touched_init: "touched {} (init_globals fillbyte tab x)"
  by (simp add: touched_def init_globals_def)

lemma touched_checkPC:
  assumes "touched W st" and "checkPC a st = Inr st'"
  shows "touched (insert a W) st'"
proof -
  from assms(2) have lt: "a < RAMSIZE"
    by (auto simp: checkPC_def split: if_splits)
  with assms(2) have st': "st' = st\<lparr>minPC := min (minPC st) a, maxPC := max (maxPC st) a\<rparr>"
    by (simp add: checkPC_in_range)
  from assms(1) have fin: "finite W" and bnd: "\<forall>b\<in>W. b < RAMSIZE"
    by (simp_all add: touched_def)
  show ?thesis
  proof (cases "W = {}")
    case True
    with assms(1) have "minPC st = RAMSIZE" "maxPC st = 0"
      by (simp_all add: touched_def)
    moreover from lt have "min RAMSIZE a = a" by (simp add: min_absorb2 less_imp_le)
    moreover have "max 0 a = a" by (simp add: max_def)
    ultimately show ?thesis using lt True
      by (simp add: touched_def st')
  next
    case False
    with assms(1) have "minPC st = Min W" "maxPC st = Max W"
      by (simp_all add: touched_def)
    with fin bnd lt False show ?thesis
      by (simp add: touched_def st' min.commute max.commute)
  qed
qed

lemma touched_checkPC_all:
  "touched W st \<Longrightarrow> checkPC_all as st = Inr st' \<Longrightarrow> touched (W \<union> set as) st'"
proof (induction as arbitrary: W st)
  case Nil
  then show ?case by simp
next
  case (Cons a as)
  from Cons.prems(2) obtain st1 where 1: "checkPC a st = Inr st1"
    and 2: "checkPC_all as st1 = Inr st'"
    by (auto split: sum.splits)
  from touched_checkPC [OF Cons.prems(1) 1] have "touched (insert a W) st1" .
  from Cons.IH [OF this 2] show ?case by simp
qed

lemma touched_empty_iff:
  assumes "touched W st"
  shows "maxPC st < minPC st \<longleftrightarrow> W = {}"
proof (cases "W = {}")
  case True
  with assms show ?thesis by (simp add: touched_def RAMSIZE_def)
next
  case False
  with assms have "finite W" "minPC st = Min W" "maxPC st = Max W"
    by (simp_all add: touched_def)
  moreover from False obtain b where "b \<in> W" by blast
  ultimately have "minPC st \<le> b" "b \<le> maxPC st"
    by simp_all
  then have "minPC st \<le> maxPC st"
    by (rule order_trans)
  with False show ?thesis by (simp add: not_less)
qed

text \<open>
  Claim C6. Starting from the initial values \<^verbatim>\<open>minPC = 0x10000\<close>, \<^verbatim>\<open>maxPC = 0\<close>, after
  any sequence of addresses that passed \<^verbatim>\<open>checkPC\<close>, \<^verbatim>\<open>minPC\<close> is the smallest and
  \<^verbatim>\<open>maxPC\<close> the largest of them, and \<^verbatim>\<open>minPC > maxPC\<close> holds exactly when the
  sequence is empty. The statement holds for every sequence, hence at every point of a
  run.
\<close>

theorem touched_range_invariant:
  assumes "checkPC_all as (init_globals fillbyte tab x) = Inr st"
  shows "(maxPC st < minPC st \<longleftrightarrow> as = []) \<and>
         (as \<noteq> [] \<longrightarrow> minPC st = Min (set as) \<and> maxPC st = Max (set as))"
proof -
  from touched_checkPC_all [OF touched_init assms]
  have t: "touched (set as) st" by simp
  from touched_empty_iff [OF t] have "maxPC st < minPC st \<longleftrightarrow> as = []" by simp
  moreover from t have "as \<noteq> [] \<longrightarrow> minPC st = Min (set as) \<and> maxPC st = Max (set as)"
    by (simp add: touched_def)
  ultimately show ?thesis by simp
qed

theorem touched_range_invariant_witness:
  "checkPC_all [0x8001, 0x8000, 0x8005] (blank)
     = Inr ((blank)\<lparr>minPC := 0x8000, maxPC := 0x8005\<rparr>)
   \<and> Min (set [0x8001, 0x8000, 0x8005 :: u32]) = 0x8000
   \<and> Max (set [0x8001, 0x8000, 0x8005 :: u32]) = 0x8005"
proof -
  have run: "checkPC_all [0x8001, 0x8000, 0x8005] (blank)
     = Inr ((blank)\<lparr>minPC := 0x8000, maxPC := 0x8005\<rparr>)"
    by (simp add: checkPC_def blank_def init_globals_def RAMSIZE_def)
  from touched_range_invariant [of _ 0 "\<lambda>_. []" "()", folded blank_def, OF run] show ?thesis
    using run by (simp add: blank_def init_globals_def)
qed


section \<open>The loop of the driver\<close>

lemma main_loop_ended: "reachedEnd (fst s) \<Longrightarrow> main_loop U cs s = Inr s"
  by (cases cs) simp_all

lemma main_loop_append:
  "main_loop U (cs @ ds) s =
     (case main_loop U cs s of Inl e \<Rightarrow> Inl e | Inr s' \<Rightarrow> main_loop U ds s')"
proof (induction cs arbitrary: s)
  case Nil
  show ?case by simp
next
  case (Cons c cs)
  show ?case
  proof (cases "reachedEnd (fst s)")
    case True
    then show ?thesis by (simp add: main_loop_ended)
  next
    case False
    then show ?thesis by (simp add: Cons.IH split: sum.splits)
  qed
qed


text \<open>
  Claim C7. The loop of \<^verbatim>\<open>main\<close> is the state machine Reading, then Tokenize and
  Encode per line, then End: with no string left to read the loop ends; while
  \<^verbatim>\<open>reachedEnd\<close> is not set, one string is read and the line is tokenized and compiled
  to the end before the next one is read; and once a prefix of the input has set
  \<^verbatim>\<open>reachedEnd\<close>, the strings that follow are not processed, whatever they are. The
  statement holds for every \<^verbatim>\<open>TokenizeLine\<close> and \<^verbatim>\<open>CompileLine\<close>.
\<close>

theorem driver_state_machine:
  "main_loop U [] s = Inr s
   \<and> (\<not> reachedEnd (fst s) \<longrightarrow>
        main_loop U (got # rest) s =
          (case process_line U got s of Inl e \<Rightarrow> Inl e | Inr s' \<Rightarrow> main_loop U rest s'))
   \<and> (ended (main_loop U cs s) \<longrightarrow> main_loop U (cs @ ds) s = main_loop U cs s)"
proof -
  have "main_loop U (cs @ ds) s = main_loop U cs s" if "ended (main_loop U cs s)"
  proof -
    from that obtain s' where 1: "main_loop U cs s = Inr s'" and 2: "reachedEnd (fst s')"
      by (auto simp: ended_def split: sum.splits)
    show ?thesis by (simp add: main_loop_append 1 main_loop_ended [OF 2])
  qed
  then show ?thesis by simp
qed

theorem driver_state_machine_witness:
  "\<not> reachedEnd (fst start_pass)
   \<and> ended (main_loop demo_units [end_line] start_pass)
   \<and> main_loop demo_units (end_line # [jp_line]) start_pass =
       (case process_line demo_units end_line start_pass of
          Inl e \<Rightarrow> Inl e | Inr s' \<Rightarrow> main_loop demo_units [jp_line] s')
   \<and> main_loop demo_units ([end_line] @ [jp_line]) start_pass
       = main_loop demo_units [end_line] start_pass
   \<and> \<not> ended (main_loop demo_units [jp_line] start_pass)"
proof -
  have "\<not> reachedEnd (fst start_pass)
      \<and> ended (main_loop demo_units [end_line] start_pass)
      \<and> \<not> ended (main_loop demo_units [jp_line] start_pass)"
    by code_simp
  then have 1: "\<not> reachedEnd (fst start_pass)"
    and 2: "ended (main_loop demo_units [end_line] start_pass)"
    and 3: "\<not> ended (main_loop demo_units [jp_line] start_pass)"
    by blast+
  from driver_state_machine [of demo_units start_pass end_line "[jp_line]" "[end_line]" "[jp_line]"]
  show ?thesis using 1 2 3 by blast
qed


section \<open>The end of a run\<close>

lemma finish_image: "image (finish opts ok f st lst) = Some st"
  by (simp add: finish_def Let_def)

lemma finish_lstfile:
  "lstfile (finish opts ok f st lst) = map_option (\<lambda>l. l @ XrefHeading # cross_reference st) lst"
  by (simp add: finish_def Let_def)

lemma finish_stdout:
  "stdout (finish opts ok f st lst) =
     (if listing opts \<or> verboseMode opts \<noteq> 0
      then (if minPC st \<le> maxPC st then [UsingMemoryRange (minPC st) (maxPC st)]
            else [NoDataCreated])
      else [])"
  by (simp add: finish_def Let_def)

lemma finish_no_data:
  "listing opts \<or> verboseMode opts \<noteq> 0 \<Longrightarrow> maxPC st < minPC st \<Longrightarrow>
   finish opts ok f st lst =
     \<lparr> status = Some 1, stdout = [NoDataCreated],
       lstfile = map_option (\<lambda>l. l @ XrefHeading # cross_reference st) lst,
       outfiles = [], image = Some st \<rparr>"
  by (simp add: finish_def Let_def not_le)

lemma aborted_image: "image (aborted e lst) = None"
  by (cases e) simp_all

lemma aborted_lstfile: "lstfile (aborted e lst) = lst"
  by (cases e) simp_all

lemma assemble_cases:
  "assemble U opts ok f content lst =
     (case loop_result U opts content lst of
        Inl p \<Rightarrow> aborted (fst p) (snd p)
      | Inr p \<Rightarrow> finish opts ok f (fst p) (snd p))"
  by (simp add: assemble_def loop_result_def split: sum.splits prod.splits)

lemma loop_result_offset [simp]:
  "loop_result U (opts\<lparr>offset := v\<rparr>) content lst = loop_result U opts content lst"
  by (simp add: loop_result_def)

lemma assemble_image:
  "image (assemble U opts ok f content lst) =
     (case loop_result U opts content lst of Inl p \<Rightarrow> None | Inr p \<Rightarrow> Some (fst p))"
  by (simp add: assemble_cases finish_image aborted_image split: sum.splits)

lemma assemble_lstfile:
  "lstfile (assemble U opts ok f content lst) =
     (case loop_result U opts content lst of
        Inl p \<Rightarrow> snd p
      | Inr p \<Rightarrow> map_option (\<lambda>l. l @ XrefHeading # cross_reference (fst p)) (snd p))"
  by (simp add: assemble_cases finish_lstfile aborted_lstfile split: sum.splits)

lemma stdout_aborted: "stdout (aborted e lst) = (case e of Fatal n m t \<Rightarrow> [ErrorReport n m t] | Undefined_store \<Rightarrow> [])"
  by (cases e) simp_all

lemma assemble_stdout:
  "stdout (assemble U opts ok f content lst) =
     (case loop_result U opts content lst of
        Inl p \<Rightarrow> (case fst p of Fatal n m t \<Rightarrow> [ErrorReport n m t] | Undefined_store \<Rightarrow> [])
      | Inr p \<Rightarrow> stdout (finish opts ok f (fst p) (snd p)))"
  by (simp add: assemble_cases stdout_aborted split: sum.splits)

lemma assemble_offset:
  "image (assemble U (opts\<lparr>offset := v\<rparr>) ok f content lst) = image (assemble U opts ok f content lst)"
  "lstfile (assemble U (opts\<lparr>offset := v\<rparr>) ok f content lst) = lstfile (assemble U opts ok f content lst)"
  "stdout (assemble U (opts\<lparr>offset := v\<rparr>) ok f content lst) = stdout (assemble U opts ok f content lst)"
  by (simp_all add: assemble_image assemble_lstfile assemble_stdout finish_stdout split: sum.splits)

lemma main_offset:
  "image (main U (opts\<lparr>offset := v\<rparr>) infile ok) = image (main U opts infile ok)"
  "lstfile (main U (opts\<lparr>offset := v\<rparr>) infile ok) = lstfile (main U opts infile ok)"
  "stdout (main U (opts\<lparr>offset := v\<rparr>) infile ok) = stdout (main U opts infile ok)"
  by (simp_all add: main_def Let_def assemble_offset split: option.splits)

text \<open>
  Claim C8. Two runs that differ only in the offset given on the command line end the
  loop in the same global state (the same RAM, \<^verbatim>\<open>minPC\<close> and \<^verbatim>\<open>maxPC\<close>), or both
  without one, and give the same listing and the same messages: the offset enters
  only the start and the size of the range written to the output files.
\<close>

theorem offset_noninterference:
  "image (main U (opts\<lparr>offset := v\<rparr>) infile ok) = image (main U (opts\<lparr>offset := w\<rparr>) infile ok)
   \<and> lstfile (main U (opts\<lparr>offset := v\<rparr>) infile ok) = lstfile (main U (opts\<lparr>offset := w\<rparr>) infile ok)
   \<and> stdout (main U (opts\<lparr>offset := v\<rparr>) infile ok) = stdout (main U (opts\<lparr>offset := w\<rparr>) infile ok)"
  by (simp only: main_offset)

lemma main_cases:
  obtains "main U opts infile ok = stopped 1"
  | "main U opts infile ok =
       \<lparr> status = None, stdout = [], lstfile = None, outfiles = [], image = None \<rparr>"
  | f content lst where "main U opts infile ok = assemble U opts ok f content lst"
proof -
  define Q :: "'a outcome \<Rightarrow> bool" where
    "Q out \<longleftrightarrow> out = stopped 1
      \<or> out = \<lparr> status = None, stdout = [], lstfile = None, outfiles = [], image = None \<rparr>
      \<or> (\<exists>f content lst. out = assemble U opts ok f content lst)" for out
  have 1: "Q (stopped 1)"
    and 2: "Q \<lparr> status = None, stdout = [], lstfile = None, outfiles = [], image = None \<rparr>"
    and 3: "Q (assemble U opts ok f content lst)" for f content lst
    unfolding Q_def by blast+
  have "Q (main U opts infile ok)"
  proof (cases infile)
    case None
    then show ?thesis by (simp add: main_def 1)
  next
    case (Some content)
    show ?thesis
      unfolding main_def Let_def Some option.case
      by (simp only: 1 2 3 if_split [of Q] simp_thms)
  qed
  with that show ?thesis
    unfolding Q_def by blast
qed

lemma assemble_no_data:
  assumes "listing opts \<or> verboseMode opts \<noteq> 0"
    and "nothing_emitted (assemble U opts ok f content lst)"
  shows "status (assemble U opts ok f content lst) = Some 1
     \<and> stdout (assemble U opts ok f content lst) = [NoDataCreated]
     \<and> outfiles (assemble U opts ok f content lst) = []"
proof (cases "loop_result U opts content lst")
  case (Inl p)
  with assms(2) show ?thesis
    by (simp add: nothing_emitted_def assemble_cases aborted_image)
next
  case (Inr p)
  with assms(2) have "maxPC (fst p) < minPC (fst p)"
    by (simp add: nothing_emitted_def assemble_cases finish_image)
  from finish_no_data [OF assms(1) this] Inr show ?thesis
    by (simp add: assemble_cases)
qed

text \<open>
  Claim C10. When the listing or the verbose mode is on and the loop ends without a
  fatal error with \<^verbatim>\<open>minPC > maxPC\<close>, the program prints "No data created", exits
  with status 1 and writes no binary, hex or C array file.
\<close>

theorem no_data_created:
  assumes "listing opts \<or> verboseMode opts \<noteq> 0"
    and "nothing_emitted (main U opts infile ok)"
  shows "status (main U opts infile ok) = Some 1
     \<and> stdout (main U opts infile ok) = [NoDataCreated]
     \<and> outfiles (main U opts infile ok) = []"
proof (cases rule: main_cases [of U opts infile ok])
    case 1
    with assms(2) show ?thesis by (simp add: nothing_emitted_def stopped_def)
  next
    case 2
    with assms(2) show ?thesis by (simp add: nothing_emitted_def)
  next
    case (3 f content lst)
    with assms show ?thesis
      using assemble_no_data [of opts U ok f content lst] by simp
qed

theorem no_data_created_witness:
  "(listing demo_options \<or> verboseMode demo_options \<noteq> 0)
   \<and> nothing_emitted (main demo_units demo_options (Some comment_file) always_ok)
   \<and> status (main demo_units demo_options (Some comment_file) always_ok) = Some 1
   \<and> stdout (main demo_units demo_options (Some comment_file) always_ok) = [NoDataCreated]
   \<and> outfiles (main demo_units demo_options (Some comment_file) always_ok) = []"
proof -
  have 1: "listing demo_options \<or> verboseMode demo_options \<noteq> 0"
    by (simp add: demo_options_def)
  have 2: "nothing_emitted (main demo_units demo_options (Some comment_file) always_ok)"
    by code_simp
  from no_data_created [OF 1 2] 1 2 show ?thesis by blast
qed


section \<open>The last character of a line\<close>

lemma cstr_no_nul: "CHR 0x00 \<notin> set s \<Longrightarrow> cstr s = s"
  by (auto simp: cstr_def takeWhile_eq_all_conv)

lemma process_line_last:
  assumes "CHR 0x00 \<notin> set l" "c \<noteq> CHR 0x00" "c' \<noteq> CHR 0x00"
  shows "process_line U (l @ [c]) s = process_line U (l @ [c']) s"
proof -
  from assms have "cstr (l @ [c]) = l @ [c]" "cstr (l @ [c']) = l @ [c']"
    by (simp_all add: cstr_no_nul)
  then show ?thesis by (simp add: process_line_def)
qed

lemma fgets_all_newline:
  "fgets_all n acc (pre @ newline # rest) = fgets_all n acc (pre @ [newline]) @ fgets_all n [] rest"
  by (induction pre arbitrary: acc) (simp_all add: newline_def)

lemma fgets_all_last_line:
  "newline \<notin> set l \<Longrightarrow> length acc + length l + 2 \<le> n \<Longrightarrow>
   fgets_all n acc (l @ [c]) = [rev acc @ l @ [c]]"
  by (induction l arbitrary: acc) (auto simp: newline_def)

lemma fgets_all_split:
  assumes "pre = [] \<or> last pre = newline"
  shows "fgets_all n [] (pre @ rest) = fgets_all n [] pre @ fgets_all n [] rest"
proof (cases "pre = []")
  case True
  then show ?thesis by simp
next
  case False
  with assms have "pre = butlast pre @ [newline]"
    by (metis append_butlast_last_id)
  then obtain p where p: "pre = p @ [newline]" ..
  show ?thesis
    using fgets_all_newline [of n "[]" p rest] by (simp add: p)
qed

lemma main_loop_last_line:
  assumes "CHR 0x00 \<notin> set l" "c \<noteq> CHR 0x00" "c' \<noteq> CHR 0x00"
  shows "main_loop U (cs @ [l @ [c]]) s = main_loop U (cs @ [l @ [c']]) s"
  using process_line_last [OF assms, of U]
  by (simp add: main_loop_append split: sum.splits)

lemma loop_result_last_line:
  assumes "pre = [] \<or> last pre = newline"
    and "newline \<notin> set l" and "CHR 0x00 \<notin> set l" and "c \<noteq> CHR 0x00"
    and "length l + 2 \<le> MAXLINELENGTH U"
  shows "loop_result U opts (pre @ l @ [c]) lst = loop_result U opts (pre @ l @ [newline]) lst"
proof -
  have nl: "newline \<noteq> CHR 0x00" by (simp add: newline_def)
  from assms(2,5) have "fgets_all (MAXLINELENGTH U) [] (l @ [c]) = [l @ [c]]"
    "fgets_all (MAXLINELENGTH U) [] (l @ [newline]) = [l @ [newline]]"
    by (simp_all add: fgets_all_last_line)
  with assms(1) have
    "fgets_all (MAXLINELENGTH U) [] (pre @ l @ [c]) = fgets_all (MAXLINELENGTH U) [] pre @ [l @ [c]]"
    "fgets_all (MAXLINELENGTH U) [] (pre @ l @ [newline]) = fgets_all (MAXLINELENGTH U) [] pre @ [l @ [newline]]"
    by (simp_all add: fgets_all_split)
  then show ?thesis
    using main_loop_last_line [OF assms(3,4) nl]
    by (simp add: loop_result_def)
qed

lemma assemble_loop_result:
  "loop_result U opts content lst = loop_result U opts content' lst \<Longrightarrow>
   assemble U opts ok f content lst = assemble U opts ok f content' lst"
  by (simp add: assemble_cases)

text \<open>
  Claim C9. The last character of every string read is dropped before the line is
  tokenized, whatever the character is: a line is processed the same with any last
  character. So a run on a file whose last line \<open>l @ [c]\<close> has no newline is the run
  on the file whose last line is \<open>l\<close>, ended by a newline: the character \<open>c\<close> is lost.
\<close>

theorem last_character_dropped:
  assumes "CHR 0x00 \<notin> set l" and "c \<noteq> CHR 0x00"
  shows "(\<forall>c'. c' \<noteq> CHR 0x00 \<longrightarrow> process_line U (l @ [c]) s = process_line U (l @ [c']) s)
     \<and> ((pre = [] \<or> last pre = newline) \<and> newline \<notin> set l \<and> length l + 2 \<le> MAXLINELENGTH U
          \<longrightarrow> main U opts (Some (pre @ l @ [c])) ok = main U opts (Some (pre @ l @ [newline])) ok)"
proof -
  have "main U opts (Some (pre @ l @ [c])) ok = main U opts (Some (pre @ l @ [newline])) ok"
    if "pre = [] \<or> last pre = newline" "newline \<notin> set l" "length l + 2 \<le> MAXLINELENGTH U"
  proof -
    have "loop_result U opts (pre @ l @ [c]) lst = loop_result U opts (pre @ l @ [newline]) lst"
      for lst
      using loop_result_last_line [OF that(1,2) assms that(3)] .
    then have "assemble U opts ok f (pre @ l @ [c]) lst = assemble U opts ok f (pre @ l @ [newline]) lst"
      for f lst
      by (rule assemble_loop_result)
    then show ?thesis by (simp add: main_def Let_def)
  qed
  then show ?thesis
    using process_line_last [OF assms, of _ U s] by blast
qed

theorem last_character_dropped_witness:
  "CHR 0x00 \<notin> set ''JP '' \<and> CHR ''L'' \<noteq> CHR 0x00
   \<and> last (''L:'' @ [newline]) = newline \<and> newline \<notin> set ''JP ''
   \<and> length ''JP '' + 2 \<le> MAXLINELENGTH demo_units
   \<and> process_line demo_units (''JP '' @ [CHR ''L'']) start_pass
       = process_line demo_units (''JP '' @ [newline]) start_pass
   \<and> main demo_units demo_options (Some ((''L:'' @ [newline]) @ ''JP '' @ [CHR ''L''])) always_ok
       = main demo_units demo_options (Some ((''L:'' @ [newline]) @ ''JP '' @ [newline])) always_ok
   \<and> stdout (main demo_units demo_options (Some ((''L:'' @ [newline]) @ ''JP '' @ [newline]))
         always_ok) = [ErrorReport 2 ''syntax error'' ''JP '']"
proof -
  have 1: "CHR 0x00 \<notin> set ''JP ''" and 2: "CHR ''L'' \<noteq> CHR 0x00" by simp_all
  have 3: "newline \<noteq> CHR 0x00" and 4: "last (''L:'' @ [newline]) = newline"
    and 5: "newline \<notin> set ''JP ''" and 6: "length ''JP '' + 2 \<le> MAXLINELENGTH demo_units"
    by (simp_all add: newline_def demo_units_def spec_units_def)
  have 7: "stdout (main demo_units demo_options (Some ((''L:'' @ [newline]) @ ''JP '' @ [newline]))
         always_ok) = [ErrorReport 2 ''syntax error'' ''JP '']"
    by code_simp
  from last_character_dropped [OF 1 2, of demo_units start_pass "''L:'' @ [newline]" demo_options
      always_ok]
  show ?thesis using 1 2 3 4 5 6 7 by blast
qed







section \<open>Unresolved symbols\<close>

lemma xref_marks_undefined:
  assumes "i < 256" "s \<in> set (SymTab st i)" "recalc s \<noteq> []"
  shows "XrefUndefined (name s) \<in> set (cross_reference st)"
proof -
  from assms(3) have "XrefUndefined (name s) \<in> set (xref_entry s)"
    by (simp add: xref_entry_def)
  with assms(1,2) show ?thesis
    by (auto simp: cross_reference_def intro!: bexI [of _ i] bexI [of _ s])
qed

lemma finish_SymTab:
  "status (finish opts ok f (st\<lparr>SymTab := tab\<rparr>) lst) = status (finish opts ok f st lst)"
  "outfiles (finish opts ok f (st\<lparr>SymTab := tab\<rparr>) lst) = outfiles (finish opts ok f st lst)"
  "stdout (finish opts ok f (st\<lparr>SymTab := tab\<rparr>) lst) = stdout (finish opts ok f st lst)"
  by (simp_all add: finish_def Let_def)

text \<open>
  Claim C5. Symbols that are unresolved at the end are not fatal: the part of \<^verbatim>\<open>main\<close>
  behind the loop gives the same exit status, messages and output files whatever the
  symbol table holds, and hands on the RAM as the loop left it, so a placeholder that
  no definition patched stays; the cross reference has an "is undefined" line for every
  symbol with a pending Fixup. In the example, \<^verbatim>\<open>JP MISSING\<close> with \<^verbatim>\<open>MISSING\<close> never
  defined, the run ends with status 0, the bytes \<open>C3 00 00\<close> at address 0 and
  \<^verbatim>\<open>MISSING\<close> reported as undefined.
\<close>

theorem unresolved_symbols_not_fatal:
  "(i < 256 \<and> s \<in> set (SymTab st i) \<and> recalc s \<noteq> [] \<longrightarrow>
      XrefUndefined (name s) \<in> set (cross_reference st))
   \<and> status (finish opts ok f (st\<lparr>SymTab := tab\<rparr>) lst) = status (finish opts ok f st lst)
   \<and> outfiles (finish opts ok f (st\<lparr>SymTab := tab\<rparr>) lst) = outfiles (finish opts ok f st lst)
   \<and> stdout (finish opts ok f (st\<lparr>SymTab := tab\<rparr>) lst) = stdout (finish opts ok f st lst)
   \<and> map_option RAM (image (finish opts ok f st lst)) = Some (RAM st)
   \<and> status (main demo_units demo_options (Some missing_file) always_ok) = Some 0
   \<and> (case image (main demo_units demo_options (Some missing_file) always_ok) of
         None \<Rightarrow> False
       | Some e \<Rightarrow> RAM e 0 = 0xC3 \<and> RAM e 1 = 0 \<and> RAM e 2 = 0 \<and> minPC e = 0 \<and> maxPC e = 2)
   \<and> (case lstfile (main demo_units demo_options (Some missing_file) always_ok) of
         None \<Rightarrow> False
       | Some l \<Rightarrow> XrefUndefined ''MISSING'' \<in> set l)"
proof -
  have "status (main demo_units demo_options (Some missing_file) always_ok) = Some 0
   \<and> (case image (main demo_units demo_options (Some missing_file) always_ok) of
         None \<Rightarrow> False
       | Some e \<Rightarrow> RAM e 0 = 0xC3 \<and> RAM e 1 = 0 \<and> RAM e 2 = 0 \<and> minPC e = 0 \<and> maxPC e = 2)
   \<and> (case lstfile (main demo_units demo_options (Some missing_file) always_ok) of
         None \<Rightarrow> False
       | Some l \<Rightarrow> XrefUndefined ''MISSING'' \<in> set l)"
    by code_simp
  then show ?thesis
    using xref_marks_undefined [of i s st]
    by (simp add: finish_SymTab finish_image)
qed

theorem unresolved_symbols_not_fatal_witness:
  "(7::nat) < 256
   \<and> (new_symbol ''MISSING'')\<lparr>recalc := [pending_fixup]\<rparr> \<in> set (SymTab pending_state 7)
   \<and> recalc ((new_symbol ''MISSING'')\<lparr>recalc := [pending_fixup]\<rparr>) \<noteq> []
   \<and> XrefUndefined ''MISSING'' \<in> set (cross_reference pending_state)"
proof -
  have 1: "(new_symbol ''MISSING'')\<lparr>recalc := [pending_fixup]\<rparr> \<in> set (SymTab pending_state 7)"
    by code_simp
  have 2: "recalc ((new_symbol ''MISSING'')\<lparr>recalc := [pending_fixup]\<rparr>) \<noteq> []"
    by simp
  have 3: "name ((new_symbol ''MISSING'')\<lparr>recalc := [pending_fixup]\<rparr>) = ''MISSING''"
    by (simp add: new_symbol_def)
  from unresolved_symbols_not_fatal [of 7 "(new_symbol ''MISSING'')\<lparr>recalc := [pending_fixup]\<rparr>"
      pending_state] 1 2 3
  show ?thesis by simp
qed



section \<open>The engine after the specification: relative branches\<close>


lemma uint_succ:
  fixes p :: u32
  assumes "uint p < 65537"
  shows "uint (p + 1) = uint p + 1"
proof -
  have "uint (p + 1) = (uint p + 1) mod 2 ^ 32"
    by (simp add: uint_word_ariths)
  also from assms have "\<dots> = uint p + 1"
    by (simp add: mod_pos_pos_trivial)
  finally show ?thesis .
qed

lemma below_RAMSIZE: "(p < RAMSIZE) = (uint p < 65536)"
  by (simp add: RAMSIZE_def word_less_def)


lemma storeByte_ok:
  "PC st < RAMSIZE \<Longrightarrow>
   storeByte b st = Inr (st\<lparr>minPC := min (minPC st) (PC st), maxPC := max (maxPC st) (PC st),
       RAM := (RAM st)(PC st := b), PC := PC st + 1\<rparr>)"
  by (simp add: storeByte_def andThen_def checkPC_def Let_def min_def max_def not_le RAMSIZE_def)




lemma find_None_map_name:
  "find (\<lambda>s. name s = n) xs = None \<Longrightarrow> map (\<lambda>t. if name t = n then s' else t) xs = xs"
  by (induction xs) (auto split: if_splits)

lemma find_append_last:
  "find P xs = None \<Longrightarrow> find P (xs @ [y]) = (if P y then Some y else None)"
  by (induction xs) (auto split: if_splits)

lemma addFixup_fresh:
  assumes "lookup h n st = None"
  shows "addFixup h n f st =
     st\<lparr>SymTab := (SymTab st)(bucket h n :=
          SymTab st (bucket h n) @ [(new_symbol n)\<lparr>recalc := [f]\<rparr>])\<rparr>"
proof -
  from assms have none: "find (\<lambda>s. name s = n) (SymTab st (bucket h n)) = None"
    by (simp add: lookup_def)
  have nm: "name (new_symbol n) = n" by (simp add: new_symbol_def)
  have rc: "recalc (new_symbol n) = []" by (simp add: new_symbol_def)
  show ?thesis
    by (simp add: addFixup_def Let_def lookupOrCreate_def assms store_symbol_def nm rc
        find_None_map_name [OF none])
qed

lemma define_fresh:
  assumes "lookup h n st = None"
  shows "define_symbol h n v Label st =
     Inr (st\<lparr>SymTab := (SymTab st)(bucket h n :=
          SymTab st (bucket h n) @
            [(new_symbol n)\<lparr>val := v, defined := True, kind := Label, recalc := []\<rparr>])\<rparr>)"
proof -
  from assms have none: "find (\<lambda>s. name s = n) (SymTab st (bucket h n)) = None"
    by (simp add: lookup_def)
  have nm: "name (new_symbol n) = n" by (simp add: new_symbol_def)
  have rc: "recalc (new_symbol n) = []" "\<not> defined (new_symbol n)"
    by (simp_all add: new_symbol_def)
  show ?thesis
    by (simp add: define_symbol_def Let_def lookupOrCreate_def assms store_symbol_def nm rc
        find_None_map_name [OF none])
qed

lemma define_pending:
  assumes tab: "SymTab st (bucket h n) = xs @ [s]"
    and none: "find (\<lambda>s. name s = n) xs = None"
    and s: "name s = n" "\<not> defined s"
  shows "define_symbol h n v Label st =
     apply_fixups v (recalc s)
       (st\<lparr>SymTab := (SymTab st)(bucket h n :=
            xs @ [s\<lparr>val := v, defined := True, kind := Label, recalc := []\<rparr>])\<rparr>)"
proof -
  have lk: "lookup h n st = Some s"
    by (simp add: lookup_def tab find_append_last [OF none] s)
  show ?thesis
    by (simp add: define_symbol_def Let_def lookupOrCreate_def lk s store_symbol_def tab
        find_None_map_name [OF none])
qed

lemma lookup_cong: "SymTab st' = SymTab st \<Longrightarrow> lookup h n st' = lookup h n st"
  by (simp add: lookup_def)






section \<open>The engine after the specification: forward references\<close>

lemma room_three:
  assumes "uint p + 2 < 65536"
  shows "p < RAMSIZE" "p + 1 < RAMSIZE" "p + 1 + 1 < RAMSIZE"
    "p + 1 \<noteq> p" "p + 1 + 1 \<noteq> p" "p + 1 + 1 \<noteq> p + 1"
proof -
  from assms have 1: "uint (p + 1) = uint p + 1" by (simp add: uint_succ)
  with assms have 2: "uint (p + 1 + 1) = uint p + 2"
    using uint_succ [of "p + 1"] by simp
  from assms show "p < RAMSIZE" by (simp add: below_RAMSIZE)
  from assms 1 show "p + 1 < RAMSIZE" by (simp add: below_RAMSIZE)
  from assms 2 show "p + 1 + 1 < RAMSIZE" by (simp add: below_RAMSIZE)
  from 1 show "p + 1 \<noteq> p" by auto
  from 2 show "p + 1 + 1 \<noteq> p" by auto
  show "p + 1 + 1 \<noteq> p + 1" by simp
qed

lemma storeByte_twice:
  assumes "PC s < RAMSIZE" "PC s + 1 < RAMSIZE"
  shows "andThen (storeByte b1 s) (storeByte b2) =
     Inr (s\<lparr>minPC := min (min (minPC s) (PC s)) (PC s + 1),
            maxPC := max (max (maxPC s) (PC s)) (PC s + 1),
            RAM := (RAM s)(PC s := b1, PC s + 1 := b2),
            PC := PC s + 1 + 1\<rparr>)"
proof -
  define s1 where "s1 = s\<lparr>minPC := min (minPC s) (PC s), maxPC := max (maxPC s) (PC s),
       RAM := (RAM s)(PC s := b1), PC := PC s + 1\<rparr>"
  have 1: "storeByte b1 s = Inr s1"
    unfolding s1_def by (rule storeByte_ok) (rule assms)
  have "storeByte b2 s1 = Inr (s1\<lparr>minPC := min (minPC s1) (PC s1), maxPC := max (maxPC s1) (PC s1),
       RAM := (RAM s1)(PC s1 := b2), PC := PC s1 + 1\<rparr>)"
    by (rule storeByte_ok) (simp add: s1_def assms)
  then show ?thesis
    by (simp add: 1 andThen_def s1_def)
qed

lemma uint_address:
  "0 \<le> a \<Longrightarrow> a < 65536 \<Longrightarrow> uint (word_of_int a :: u32) = a"
  by (simp add: uint_word_of_int mod_pos_pos_trivial)

lemma evaluate_Sym_fresh: "lookup h n st = None \<Longrightarrow> evaluate h st (Sym n) = Inr (Unresolved n 0)"
  by simp

lemma jp_forward:
  assumes room: "uint (PC st) + 2 < 65536" and fresh: "lookup h n st = None"
  shows "encode h (JP (Sym n)) st =
     Inr ((three_bytes 0xC3 0 0 st)\<lparr>SymTab := (SymTab st)(bucket h n :=
        SymTab st (bucket h n) @
          [(new_symbol n)\<lparr>recalc := [\<lparr> location = PC st + 1, width = 2, encoding = Absolute,
              constantOffset = 0 \<rparr>]\<rparr>])\<rparr>)"
proof -
  note r = room_three [OF room]
  define st1 where "st1 = st\<lparr>minPC := min (minPC st) (PC st), maxPC := max (maxPC st) (PC st),
       RAM := (RAM st)(PC st := 0xC3), PC := PC st + 1\<rparr>"
  define f where "f = \<lparr> location = PC st + 1, width = 2, encoding = Absolute,
              constantOffset = 0 \<rparr>"
  define stb where "stb = st1\<lparr>minPC := min (min (minPC st1) (PC st1)) (PC st1 + 1),
            maxPC := max (max (maxPC st1) (PC st1)) (PC st1 + 1),
            RAM := (RAM st1)(PC st1 := 0, PC st1 + 1 := 0),
            PC := PC st1 + 1 + 1\<rparr>"
  have s1: "storeByte 0xC3 st = Inr st1"
    unfolding st1_def by (rule storeByte_ok) (rule r)
  have "lookup h n st1 = lookup h n st"
    by (rule lookup_cong) (simp add: st1_def)
  with fresh have fresh1: "lookup h n st1 = None" by simp
  have pc1: "PC st1 = PC st + 1" by (simp add: st1_def)
  have ew: "emit_word h (Sym n) st1 =
      andThen (andThen (storeByte 0 st1) (storeByte 0)) (\<lambda>st'. Inr (addFixup h n f st'))"
    unfolding emit_word_def evaluate_Sym_fresh [OF fresh1]
    by (simp add: pc1 f_def)
  have two: "andThen (storeByte 0 st1) (storeByte 0) = Inr stb"
    unfolding stb_def
    by (rule storeByte_twice) (use r in \<open>simp_all add: pc1\<close>)
  have "lookup h n stb = lookup h n st"
    by (rule lookup_cong) (simp add: stb_def st1_def)
  with fresh have "lookup h n stb = None" by simp
  from addFixup_fresh [OF this]
  have af: "addFixup h n f stb = stb\<lparr>SymTab := (SymTab stb)(bucket h n :=
          SymTab stb (bucket h n) @ [(new_symbol n)\<lparr>recalc := [f]\<rparr>])\<rparr>" .
  have "encode h (JP (Sym n)) st = emit_word h (Sym n) st1"
    by (simp add: s1 andThen_def)
  also have "\<dots> = Inr (addFixup h n f stb)"
    unfolding ew two by (simp add: andThen_def)
  also have "\<dots> = Inr ((three_bytes 0xC3 0 0 st)\<lparr>SymTab := (SymTab st)(bucket h n :=
        SymTab st (bucket h n) @ [(new_symbol n)\<lparr>recalc := [f]\<rparr>])\<rparr>)"
    unfolding af by (simp add: stb_def st1_def three_bytes_def)
  finally show ?thesis
    by (simp add: f_def)
qed

lemma jp_backward:
  assumes room: "uint (PC st) + 2 < 65536"
    and known: "lookup h n st = Some s" "defined s" "val s = v"
  shows "encode h (JP (Sym n)) st = Inr (three_bytes 0xC3 (lo v) (hi v) st)"
proof -
  note r = room_three [OF room]
  define st1 where "st1 = st\<lparr>minPC := min (minPC st) (PC st), maxPC := max (maxPC st) (PC st),
       RAM := (RAM st)(PC st := 0xC3), PC := PC st + 1\<rparr>"
  have s1: "storeByte 0xC3 st = Inr st1"
    unfolding st1_def by (rule storeByte_ok) (rule r)
  have "lookup h n st1 = lookup h n st"
    by (rule lookup_cong) (simp add: st1_def)
  with known have ev: "evaluate h st1 (Sym n) = Inr (Resolved v)" by simp
  have pc1: "PC st1 = PC st + 1" by (simp add: st1_def)
  have ew: "emit_word h (Sym n) st1 = andThen (storeByte (lo v) st1) (storeByte (hi v))"
    unfolding emit_word_def ev by simp
  have "encode h (JP (Sym n)) st = andThen (storeByte (lo v) st1) (storeByte (hi v))"
    by (simp add: s1 andThen_def ew)
  also have "\<dots> =
     Inr (st1\<lparr>minPC := min (min (minPC st1) (PC st1)) (PC st1 + 1),
            maxPC := max (max (maxPC st1) (PC st1)) (PC st1 + 1),
            RAM := (RAM st1)(PC st1 := lo v, PC st1 + 1 := hi v),
            PC := PC st1 + 1 + 1\<rparr>)"
    by (rule storeByte_twice) (use r in \<open>simp_all add: pc1\<close>)
  also have "\<dots> = Inr (three_bytes 0xC3 (lo v) (hi v) st)"
    by (simp add: st1_def three_bytes_def)
  finally show ?thesis .
qed

lemma compile_all_step:
  "\<not> reachedEnd st \<Longrightarrow> compile_stmt h stmt st = Inr st' \<Longrightarrow>
   compile_all h (stmt # rest) st = compile_all h rest st'"
  by (simp add: andThen_def)

lemma compile_ORG: "compile_stmt h (None, ORG (Lit v)) st = Inr (st\<lparr>PC := word_of_int v\<rparr>)"
  by (simp add: compile_stmt_def andThen_def)

lemma compile_label:
  "compile_stmt h (Some n, Nothing) st = define_symbol h n (uint (PC st)) Label st"
  by (simp add: compile_stmt_def andThen_def split: sum.splits)

lemma compile_JP: "compile_stmt h (None, JP e) st = encode h (JP e) st"
  by (simp add: compile_stmt_def andThen_def)

text \<open>
  Claim C2. For every address \<open>x\<close> with room for the three bytes of \<^verbatim>\<open>JP\<close>, every
  address \<open>a\<close> of the label and every starting state in which the label is unknown:
  the program that has \<^verbatim>\<open>JP LABEL\<close> at \<open>x\<close> first and defines \<^verbatim>\<open>LABEL\<close> at \<open>a\<close>
  later, and the program that defines \<^verbatim>\<open>LABEL\<close> at \<open>a\<close> first and has \<^verbatim>\<open>JP LABEL\<close>
  at \<open>x\<close> later, both assemble, and end with the same RAM, the same touched range and
  the same symbol table, in states that differ in the cursor only; the bytes at \<open>x\<close>
  are \<open>C3\<close>, the low and the high byte of \<open>a\<close>.
\<close>

theorem forward_reference_order:
  fixes st :: "'x globals"
  assumes x: "0 \<le> x" "x + 2 < 65536" and a: "0 \<le> a" "a < 65536"
    and fresh: "lookup h n st = None" and run: "\<not> reachedEnd st"
  shows "\<exists>s1 s2.
      compile_all h [(None, ORG (Lit x)), (None, JP (Sym n)), (None, ORG (Lit a)), (Some n, Nothing)] st
        = Inr s1
    \<and> compile_all h [(None, ORG (Lit a)), (Some n, Nothing), (None, ORG (Lit x)), (None, JP (Sym n))] st
        = Inr s2
    \<and> RAM s1 = RAM s2 \<and> minPC s1 = minPC s2 \<and> maxPC s1 = maxPC s2 \<and> SymTab s1 = SymTab s2
    \<and> s1\<lparr>PC := PC s2\<rparr> = s2
    \<and> RAM s1 (word_of_int x) = 0xC3 \<and> RAM s1 (word_of_int x + 1) = lo a
    \<and> RAM s1 (word_of_int x + 2) = hi a"
proof -
  define X :: u32 where "X = word_of_int x"
  define A :: u32 where "A = word_of_int a"
  define b where "b = bucket h n"
  define sym where "sym = (new_symbol n)\<lparr>val := a, defined := True, kind := Label, recalc := []\<rparr>"
  define f where "f = \<lparr> location = X + 1, width = 2, encoding = Absolute, constantOffset = 0 \<rparr>"
  from x have uX: "uint X = x" unfolding X_def by (simp add: uint_address)
  from a have uA: "uint A = a" unfolding A_def by (rule uint_address)
  from x uX have room: "uint X + 2 < 65536" by simp
  note r = room_three [OF room]
  from fresh have none: "find (\<lambda>s. name s = n) (SymTab st b) = None"
    by (simp add: lookup_def b_def)

  \<comment> \<open>the label first\<close>
  define sB where "sB = st\<lparr>PC := A, SymTab := (SymTab st)(b := SymTab st b @ [sym])\<rparr>"
  define sC where "sC = sB\<lparr>PC := X\<rparr>"
  define s2 where "s2 = three_bytes 0xC3 (lo a) (hi a) sC"
  have "lookup h n (st\<lparr>PC := A\<rparr>) = None"
    using fresh by (simp add: lookup_cong [of "st\<lparr>PC := A\<rparr>" st])
  from define_fresh [OF this, of "uint A"]
  have l2: "compile_stmt h (Some n, Nothing) (st\<lparr>PC := A\<rparr>) = Inr sB"
    by (simp add: compile_label uA sB_def sym_def b_def)
  have lk: "lookup h n sC = Some sym"
    by (simp add: lookup_def sC_def sB_def b_def [symmetric] find_append_last [OF none]
        sym_def new_symbol_def)
  have "uint (PC sC) + 2 < 65536" using room by (simp add: sC_def)
  from jp_backward [OF this lk, of a]
  have l4: "compile_stmt h (None, JP (Sym n)) sC = Inr s2"
    by (simp add: compile_JP s2_def sym_def)
  have second: "compile_all h
      [(None, ORG (Lit a)), (Some n, Nothing), (None, ORG (Lit x)), (None, JP (Sym n))] st = Inr s2"
  proof -
    have "compile_all h
      [(None, ORG (Lit a)), (Some n, Nothing), (None, ORG (Lit x)), (None, JP (Sym n))] st
      = compile_all h [(Some n, Nothing), (None, ORG (Lit x)), (None, JP (Sym n))] (st\<lparr>PC := A\<rparr>)"
      by (rule compile_all_step [OF run]) (simp add: compile_ORG A_def)
    also have "\<dots> = compile_all h [(None, ORG (Lit x)), (None, JP (Sym n))] sB"
      by (rule compile_all_step [OF _ l2]) (simp add: run)
    also have "\<dots> = compile_all h [(None, JP (Sym n))] sC"
      by (rule compile_all_step) (simp_all add: sB_def run compile_ORG sC_def X_def)
    also have "\<dots> = compile_all h [] s2"
      by (rule compile_all_step [OF _ l4]) (simp add: sC_def sB_def run)
    finally show ?thesis by simp
  qed

  \<comment> \<open>the use first\<close>
  define t1 where "t1 = st\<lparr>PC := X\<rparr>"
  define t2 where "t2 = (three_bytes 0xC3 0 0 t1)\<lparr>SymTab := (SymTab st)(b :=
        SymTab st b @ [(new_symbol n)\<lparr>recalc := [f]\<rparr>])\<rparr>"
  define t3 where "t3 = t2\<lparr>PC := A\<rparr>"
  define t3' where "t3' = t3\<lparr>SymTab := (SymTab t3)(b := SymTab st b @ [sym])\<rparr>"
  define s1 where "s1 = poke (X + 1 + 1) (hi a) (poke (X + 1) (lo a) t3')"
  have f1: "lookup h n t1 = None"
    using fresh by (simp add: t1_def lookup_cong [of "st\<lparr>PC := X\<rparr>" st])
  have "uint (PC t1) + 2 < 65536" using room by (simp add: t1_def)
  from jp_forward [OF this f1]
  have k2: "compile_stmt h (None, JP (Sym n)) t1 = Inr t2"
    by (simp add: compile_JP t2_def t1_def f_def b_def)
  have tab3: "SymTab t3 (bucket h n) = SymTab st b @ [(new_symbol n)\<lparr>recalc := [f]\<rparr>]"
    by (simp add: t3_def t2_def b_def)
  have "define_symbol h n a Label t3 =
     apply_fixups a (recalc ((new_symbol n)\<lparr>recalc := [f]\<rparr>))
       (t3\<lparr>SymTab := (SymTab t3)(bucket h n := SymTab st b @
          [(new_symbol n)\<lparr>recalc := [f]\<rparr>\<lparr>val := a, defined := True, kind := Label, recalc := []\<rparr>])\<rparr>)"
    by (rule define_pending [OF tab3 none]) (simp_all add: new_symbol_def)
  also have "\<dots> = apply_fixup a f t3'"
    by (simp add: t3'_def sym_def b_def split: sum.splits)
  also have "\<dots> = Inr s1"
    by (simp add: apply_fixup_def f_def s1_def)
  finally have k4: "compile_stmt h (Some n, Nothing) t3 = Inr s1"
    by (simp add: compile_label t3_def uA)
  have first: "compile_all h
      [(None, ORG (Lit x)), (None, JP (Sym n)), (None, ORG (Lit a)), (Some n, Nothing)] st = Inr s1"
  proof -
    have "compile_all h
      [(None, ORG (Lit x)), (None, JP (Sym n)), (None, ORG (Lit a)), (Some n, Nothing)] st
      = compile_all h [(None, JP (Sym n)), (None, ORG (Lit a)), (Some n, Nothing)] t1"
      by (rule compile_all_step [OF run]) (simp add: compile_ORG X_def t1_def)
    also have "\<dots> = compile_all h [(None, ORG (Lit a)), (Some n, Nothing)] t2"
      by (rule compile_all_step [OF _ k2]) (simp add: t1_def run)
    also have "\<dots> = compile_all h [(Some n, Nothing)] t3"
      by (rule compile_all_step)
        (simp_all add: t2_def t1_def three_bytes_def run compile_ORG t3_def A_def)
    also have "\<dots> = compile_all h [] s1"
      by (rule compile_all_step [OF _ k4]) (simp add: t3_def t2_def t1_def three_bytes_def run)
    finally show ?thesis by simp
  qed

  have ram: "RAM s1 = RAM s2"
    using r by (auto simp: fun_eq_iff s1_def s2_def poke_def t3'_def t3_def t2_def t1_def sC_def sB_def
        three_bytes_def)
  have rng: "minPC s1 = minPC s2" "maxPC s1 = maxPC s2"
    by (simp_all add: s1_def s2_def poke_def t3'_def t3_def t2_def t1_def sC_def sB_def
        three_bytes_def)
  have tab: "SymTab s1 = SymTab s2"
    by (simp add: s1_def s2_def poke_def t3'_def t3_def t2_def t1_def sC_def sB_def
        three_bytes_def)
  have bytes: "RAM s2 X = 0xC3" "RAM s2 (X + 1) = lo a" "RAM s2 (X + 2) = hi a"
    using r by (simp_all add: s2_def sC_def three_bytes_def)
  have rest: "nextPC s1 = nextPC s2" "LineNo s1 = LineNo s2" "LineBuf s1 = LineBuf s2"
    "reachedEnd s1 = reachedEnd s2" "ext s1 = ext s2" "globals.more s1 = globals.more s2"
    by (simp_all add: s1_def s2_def poke_def t3'_def t3_def t2_def t1_def sC_def sB_def
        three_bytes_def)
  have same: "s1\<lparr>PC := PC s2\<rparr> = s2"
    by (rule globals.equality) (simp_all add: ram rng tab rest)
  from first second ram rng tab same bytes show ?thesis
    by (simp add: X_def)
qed

theorem forward_reference_order_witness:
  "lookup length ''LABEL'' blank = None \<and> \<not> reachedEnd blank
   \<and> (\<exists>s1 s2.
      compile_all length [(None, ORG (Lit 0x8000)), (None, JP (Sym ''LABEL'')),
          (None, ORG (Lit 0x1234)), (Some ''LABEL'', Nothing)] blank = Inr s1
    \<and> compile_all length [(None, ORG (Lit 0x1234)), (Some ''LABEL'', Nothing),
          (None, ORG (Lit 0x8000)), (None, JP (Sym ''LABEL''))] blank = Inr s2
    \<and> RAM s1 = RAM s2 \<and> minPC s1 = minPC s2 \<and> maxPC s1 = maxPC s2 \<and> SymTab s1 = SymTab s2
    \<and> s1\<lparr>PC := PC s2\<rparr> = s2
    \<and> RAM s1 0x8000 = 0xC3 \<and> RAM s1 0x8001 = lo 0x1234 \<and> RAM s1 0x8002 = hi 0x1234)"
proof -
  have 1: "lookup length ''LABEL'' blank = None"
    by (simp add: lookup_def blank_def init_globals_def)
  have 2: "\<not> reachedEnd blank" by (simp add: blank_def init_globals_def)
  from forward_reference_order [of "0x8000" "0x1234" length "''LABEL''" blank, OF _ _ _ _ 1 2]
  show ?thesis using 1 2 by simp
qed

end
